theory Spec2Isabelle
  imports Main
begin

section \<open>The data model of rbtree.go\<close>

text \<open>
  A \<open>*node\<close> is an address or nil. Nodes live in a store indexed by addresses; the
  \<open>Tree\<close> struct holds the root, the two cached extreme nodes, the element count and
  the comparator. \<open>nalloc\<close> is the next address \<open>new(node)\<close> hands out.
  The colour constants of the source are \<open>red = 0\<close> and \<open>black = 1\<close>; only these two
  values are ever stored in the \<open>color\<close> field.
\<close>

type_synonym ref = "nat option"

datatype color = red | black

record 'a node =
  item :: 'a
  parent :: ref
  left :: ref
  right :: ref
  color :: color

record 'a Tree =
  root :: ref
  minNode :: ref
  maxNode :: ref
  count :: int
  compare :: "'a \<Rightarrow> 'a \<Rightarrow> int"

record 'a state =
  tree :: "'a Tree"
  nodes :: "nat \<Rightarrow> 'a node"
  nalloc :: nat

text \<open>
  An \<open>Iterator\<close> is a pair of a tree pointer and a node pointer. The model has one
  tree, the one of the state an iterator method is run in, so only the node is kept.
\<close>

record Iterator =
  node :: ref

section \<open>Programs: state, panics and loops\<close>

text \<open>
  A program takes the state and either returns a value with the new state (\<open>Ok\<close>),
  or panics, leaving the state it had reached (\<open>Panic\<close>): a failed \<open>doAssert\<close>
  and a nil dereference both panic. A program that does not return is \<open>None\<close>.
\<close>

datatype ('r, 's) res = Ok 'r 's | Panic 's

type_synonym ('r, 'a) prog = "'a state \<Rightarrow> ('r, 'a state) res option"

definition ret :: "'r \<Rightarrow> ('r, 'a) prog" where
  "ret x s = Some (Ok x s)"

definition panic :: "('r, 'a) prog" where
  "panic s = Some (Panic s)"

definition bnd :: "('r, 'a) prog \<Rightarrow> ('r \<Rightarrow> ('q, 'a) prog) \<Rightarrow> ('q, 'a) prog" where
  "bnd m f s = (case m s of
      None \<Rightarrow> None
    | Some (Panic s') \<Rightarrow> Some (Panic s')
    | Some (Ok x s') \<Rightarrow> f x s')"

definition seq :: "(unit, 'a) prog \<Rightarrow> ('q, 'a) prog \<Rightarrow> ('q, 'a) prog" where
  "seq m k = bnd m (\<lambda>_. k)"

text \<open>A sequence of statements.\<close>

fun block :: "(unit, 'a) prog list \<Rightarrow> (unit, 'a) prog" where
  "block [] = ret ()"
| "block (m # ms) = seq m (block ms)"

definition whenP :: "bool \<Rightarrow> (unit, 'a) prog \<Rightarrow> (unit, 'a) prog" where
  "whenP b m = (if b then m else ret ())"

text \<open>Short-circuit conjunction of two conditions, as Go's \<open>&&\<close>.\<close>

definition andP :: "(bool, 'a) prog \<Rightarrow> (bool, 'a) prog \<Rightarrow> (bool, 'a) prog" where
  "andP a b = bnd a (\<lambda>x. if x then b else ret False)"

definition orP :: "(bool, 'a) prog \<Rightarrow> (bool, 'a) prog \<Rightarrow> (bool, 'a) prog" where
  "orP a b = bnd a (\<lambda>x. if x then ret True else b)"

text \<open>
  A \<open>for true { ... }\<close> loop: the body either continues with new loop variables
  (\<open>Inl\<close>) or leaves the loop with a result (\<open>Inr\<close>).
\<close>

partial_function (option) whileP ::
  "('x \<Rightarrow> ('x + 'r, 'a) prog) \<Rightarrow> 'x \<Rightarrow> 'a state \<Rightarrow> ('r, 'a state) res option" where
  "whileP body x s = (case body x s of
      None \<Rightarrow> None
    | Some (Panic s') \<Rightarrow> Some (Panic s')
    | Some (Ok (Inl x') s') \<Rightarrow> whileP body x' s'
    | Some (Ok (Inr r) s') \<Rightarrow> Some (Ok r s'))"

text \<open>Reading and writing a field of the node a pointer refers to; nil panics.\<close>

definition fld :: "('a node \<Rightarrow> 'r) \<Rightarrow> ref \<Rightarrow> ('r, 'a) prog" where
  "fld f n s = (case n of None \<Rightarrow> Some (Panic s) | Some a \<Rightarrow> Some (Ok (f (nodes s a)) s))"

definition upd :: "('a node \<Rightarrow> 'a node) \<Rightarrow> ref \<Rightarrow> (unit, 'a) prog" where
  "upd g n s = (case n of None \<Rightarrow> Some (Panic s)
     | Some a \<Rightarrow> Some (Ok () (s\<lparr>nodes := (nodes s)(a := g (nodes s a))\<rparr>)))"

text \<open>Reading and writing a field of the tree.\<close>

definition tfld :: "('a Tree \<Rightarrow> 'r) \<Rightarrow> ('r, 'a) prog" where
  "tfld f s = Some (Ok (f (tree s)) s)"

definition tupd :: "('a Tree \<Rightarrow> 'a Tree) \<Rightarrow> (unit, 'a) prog" where
  "tupd g s = Some (Ok () (s\<lparr>tree := g (tree s)\<rparr>))"

definition doAssert :: "bool \<Rightarrow> (unit, 'a) prog" where
  "doAssert b = (if b then ret () else panic)"

section \<open>Internal node attribute accessors\<close>

definition getColor :: "ref \<Rightarrow> (color, 'a) prog" where
  "getColor n = (if n = None then ret black else fld color n)"

text \<open>\<open>getColor(e) == c\<close> for a pointer expression \<open>e\<close>.\<close>

definition colorIs :: "(ref, 'a) prog \<Rightarrow> color \<Rightarrow> (bool, 'a) prog" where
  "colorIs e c = bnd e (\<lambda>p. bnd (getColor p) (\<lambda>x. ret (x = c)))"

definition isLeftChild :: "ref \<Rightarrow> (bool, 'a) prog" where
  "isLeftChild n = bnd (fld parent n) (\<lambda>p. bnd (fld left p) (\<lambda>l. ret (n = l)))"

definition isRightChild :: "ref \<Rightarrow> (bool, 'a) prog" where
  "isRightChild n = bnd (fld parent n) (\<lambda>p. bnd (fld right p) (\<lambda>r. ret (n = r)))"

definition sibling :: "ref \<Rightarrow> (ref, 'a) prog" where
  "sibling n =
     bnd (fld parent n) (\<lambda>p.
     seq (doAssert (p \<noteq> None))
     (bnd (isLeftChild n) (\<lambda>b.
      if b then bnd (fld parent n) (fld right)
      else bnd (fld parent n) (fld left))))"

text \<open>The successor of a node: \<open>next\<close> of the source.\<close>

definition node_next :: "ref \<Rightarrow> (ref, 'a) prog" where
  "node_next n =
     bnd (fld right n) (\<lambda>r.
     if r \<noteq> None then
       bnd (fld right n) (\<lambda>m0.
       whileP (\<lambda>m. bnd (fld left m) (\<lambda>l.
                 if l \<noteq> None then bnd (fld left m) (\<lambda>m'. ret (Inl m'))
                 else ret (Inr m))) m0)
     else
       whileP (\<lambda>n.
         if n \<noteq> None then
           bnd (fld parent n) (\<lambda>p.
           if p = None then ret (Inr None)
           else bnd (isLeftChild n) (\<lambda>b.
             if b then ret (Inr p) else ret (Inl p)))
         else ret (Inr None)) n)"

definition maxPredecessor :: "ref \<Rightarrow> (ref, 'a) prog" where
  "maxPredecessor n =
     bnd (fld left n) (\<lambda>l.
     seq (doAssert (l \<noteq> None))
     (bnd (fld left n) (\<lambda>m0.
      whileP (\<lambda>m. bnd (fld right m) (\<lambda>r.
                if r \<noteq> None then bnd (fld right m) (\<lambda>m'. ret (Inl m'))
                else ret (Inr m))) m0)))"

text \<open>The predecessor of a node: \<open>prev\<close> of the source.\<close>

definition node_prev :: "ref \<Rightarrow> (ref, 'a) prog" where
  "node_prev n =
     bnd (fld left n) (\<lambda>l.
     if l \<noteq> None then maxPredecessor n
     else
       whileP (\<lambda>n.
         if n \<noteq> None then
           bnd (fld parent n) (\<lambda>p.
           if p = None then ret (Inr None)
           else bnd (isRightChild n) (\<lambda>b.
             if b then ret (Inr p) else ret (Inl p)))
         else ret (Inr None)) n)"

section \<open>Private tree methods\<close>

definition maybeSetMinNode :: "ref \<Rightarrow> (unit, 'a) prog" where
  "maybeSetMinNode n =
     bnd (tfld minNode) (\<lambda>mn.
     if mn = None then
       block [tupd (\<lambda>t. t\<lparr>minNode := n\<rparr>), tupd (\<lambda>t. t\<lparr>maxNode := n\<rparr>)]
     else
       bnd (tfld compare) (\<lambda>cmp. bnd (fld item n) (\<lambda>a. bnd (fld item mn) (\<lambda>b.
       whenP (cmp a b < 0) (tupd (\<lambda>t. t\<lparr>minNode := n\<rparr>))))))"

definition maybeSetMaxNode :: "ref \<Rightarrow> (unit, 'a) prog" where
  "maybeSetMaxNode n =
     bnd (tfld maxNode) (\<lambda>mx.
     if mx = None then
       block [tupd (\<lambda>t. t\<lparr>minNode := n\<rparr>), tupd (\<lambda>t. t\<lparr>maxNode := n\<rparr>)]
     else
       bnd (tfld compare) (\<lambda>cmp. bnd (fld item n) (\<lambda>a. bnd (fld item mx) (\<lambda>b.
       whenP (cmp a b > 0) (tupd (\<lambda>t. t\<lparr>maxNode := n\<rparr>))))))"

definition doInsert_body :: "ref \<Rightarrow> ref \<Rightarrow> (ref + bool, 'a) prog" where
  "doInsert_body n parent' =
     bnd (tfld compare) (\<lambda>cmp. bnd (fld item n) (\<lambda>a. bnd (fld item parent') (\<lambda>b.
     let comp = cmp a b in
     if comp = 0 then ret (Inr False)
     else if comp < 0 then
       bnd (fld left parent') (\<lambda>l.
       if l = None then
         seq (block [
           upd (\<lambda>x. x\<lparr>parent := parent'\<rparr>) n,
           upd (\<lambda>x. x\<lparr>left := n\<rparr>) parent',
           tupd (\<lambda>t. t\<lparr>count := count t + 1\<rparr>),
           maybeSetMinNode n])
         (ret (Inr True))
       else bnd (fld left parent') (\<lambda>p'. ret (Inl p')))
     else
       bnd (fld right parent') (\<lambda>r.
       if r = None then
         seq (block [
           upd (\<lambda>x. x\<lparr>parent := parent'\<rparr>) n,
           upd (\<lambda>x. x\<lparr>right := n\<rparr>) parent',
           tupd (\<lambda>t. t\<lparr>count := count t + 1\<rparr>),
           maybeSetMaxNode n])
         (ret (Inr True))
       else bnd (fld right parent') (\<lambda>p'. ret (Inl p'))))))"

definition doInsert :: "ref \<Rightarrow> (bool, 'a) prog" where
  "doInsert n =
     bnd (tfld root) (\<lambda>r.
     if r = None then
       seq (block [
         upd (\<lambda>x. x\<lparr>parent := None\<rparr>) n,
         tupd (\<lambda>t. t\<lparr>root := n\<rparr>),
         tupd (\<lambda>t. t\<lparr>minNode := n\<rparr>),
         tupd (\<lambda>t. t\<lparr>maxNode := n\<rparr>),
         tupd (\<lambda>t. t\<lparr>count := count t + 1\<rparr>)])
       (ret True)
     else
       bnd (tfld root) (\<lambda>parent'. whileP (doInsert_body n) parent'))"

definition findGE_body :: "'a \<Rightarrow> ref \<Rightarrow> (ref + ref \<times> bool, 'a) prog" where
  "findGE_body key n =
     (if n = None then ret (Inr (None, False))
      else
        bnd (tfld compare) (\<lambda>cmp. bnd (fld item n) (\<lambda>b.
        let comp = cmp key b in
        if comp = 0 then ret (Inr (n, True))
        else if comp < 0 then
          bnd (fld left n) (\<lambda>l.
          if l \<noteq> None then bnd (fld left n) (\<lambda>n'. ret (Inl n'))
          else ret (Inr (n, False)))
        else
          bnd (fld right n) (\<lambda>r.
          if r \<noteq> None then bnd (fld right n) (\<lambda>n'. ret (Inl n'))
          else
            bnd (node_next n) (\<lambda>succ.
            if succ = None then ret (Inr (None, False))
            else
              bnd (tfld compare) (\<lambda>cmp. bnd (fld item succ) (\<lambda>c.
              let comp = cmp key c in
              ret (Inr (succ, comp = 0)))))))))"

definition findGE :: "'a \<Rightarrow> (ref \<times> bool, 'a) prog" where
  "findGE key = bnd (tfld root) (\<lambda>n. whileP (findGE_body key) n)"

definition replaceNode :: "ref \<Rightarrow> ref \<Rightarrow> (unit, 'a) prog" where
  "replaceNode oldn newn = block [
     bnd (fld parent oldn) (\<lambda>op.
       if op = None then tupd (\<lambda>t. t\<lparr>root := newn\<rparr>)
       else
         bnd (bnd (fld parent oldn) (fld left)) (\<lambda>l.
         if oldn = l then bnd (fld parent oldn) (upd (\<lambda>x. x\<lparr>left := newn\<rparr>))
         else bnd (fld parent oldn) (upd (\<lambda>x. x\<lparr>right := newn\<rparr>)))),
     whenP (newn \<noteq> None)
       (bnd (fld parent oldn) (\<lambda>op. upd (\<lambda>x. x\<lparr>parent := op\<rparr>) newn))]"

definition rotateLeft :: "ref \<Rightarrow> (unit, 'a) prog" where
  "rotateLeft x =
     bnd (fld right x) (\<lambda>y. block [
       bnd (fld left y) (\<lambda>yl. upd (\<lambda>n. n\<lparr>right := yl\<rparr>) x),
       bnd (fld left y) (\<lambda>yl.
         whenP (yl \<noteq> None) (bnd (fld left y) (upd (\<lambda>n. n\<lparr>parent := x\<rparr>)))),
       bnd (fld parent x) (\<lambda>xp. upd (\<lambda>n. n\<lparr>parent := xp\<rparr>) y),
       bnd (fld parent x) (\<lambda>xp.
         if xp = None then tupd (\<lambda>t. t\<lparr>root := y\<rparr>)
         else bnd (isLeftChild x) (\<lambda>b.
           if b then bnd (fld parent x) (upd (\<lambda>n. n\<lparr>left := y\<rparr>))
           else bnd (fld parent x) (upd (\<lambda>n. n\<lparr>right := y\<rparr>)))),
       upd (\<lambda>n. n\<lparr>left := x\<rparr>) y,
       upd (\<lambda>n. n\<lparr>parent := y\<rparr>) x])"

definition rotateRight :: "ref \<Rightarrow> (unit, 'a) prog" where
  "rotateRight y =
     bnd (fld left y) (\<lambda>x. block [
       bnd (fld right x) (\<lambda>xr. upd (\<lambda>n. n\<lparr>left := xr\<rparr>) y),
       bnd (fld right x) (\<lambda>xr.
         whenP (xr \<noteq> None) (bnd (fld right x) (upd (\<lambda>n. n\<lparr>parent := y\<rparr>)))),
       bnd (fld parent y) (\<lambda>yp. upd (\<lambda>n. n\<lparr>parent := yp\<rparr>) x),
       bnd (fld parent y) (\<lambda>yp.
         if yp = None then tupd (\<lambda>t. t\<lparr>root := x\<rparr>)
         else bnd (isLeftChild y) (\<lambda>b.
           if b then bnd (fld parent y) (upd (\<lambda>n. n\<lparr>left := x\<rparr>))
           else bnd (fld parent y) (upd (\<lambda>n. n\<lparr>right := x\<rparr>)))),
       upd (\<lambda>n. n\<lparr>right := y\<rparr>) x,
       upd (\<lambda>n. n\<lparr>parent := x\<rparr>) y])"

text \<open>The condition \<open>n == n.parent.left\<close>.\<close>

definition onLeft :: "ref \<Rightarrow> (bool, 'a) prog" where
  "onLeft n = bnd (bnd (fld parent n) (fld left)) (\<lambda>l. ret (n = l))"

definition onRight :: "ref \<Rightarrow> (bool, 'a) prog" where
  "onRight n = bnd (bnd (fld parent n) (fld right)) (\<lambda>r. ret (n = r))"

definition deleteCase5 :: "ref \<Rightarrow> (unit, 'a) prog" where
  "deleteCase5 n = block [
     bnd (andP (onLeft n)
         (andP (colorIs (sibling n) black)
         (andP (colorIs (bnd (sibling n) (fld left)) red)
               (colorIs (bnd (sibling n) (fld right)) black)))) (\<lambda>b.
       if b then block [
         bnd (sibling n) (upd (\<lambda>x. x\<lparr>color := red\<rparr>)),
         bnd (bnd (sibling n) (fld left)) (upd (\<lambda>x. x\<lparr>color := black\<rparr>)),
         bnd (sibling n) rotateRight]
       else
         bnd (andP (onRight n)
             (andP (colorIs (sibling n) black)
             (andP (colorIs (bnd (sibling n) (fld right)) red)
                   (colorIs (bnd (sibling n) (fld left)) black)))) (\<lambda>b.
           whenP b (block [
             bnd (sibling n) (upd (\<lambda>x. x\<lparr>color := red\<rparr>)),
             bnd (bnd (sibling n) (fld right)) (upd (\<lambda>x. x\<lparr>color := black\<rparr>)),
             bnd (sibling n) rotateLeft]))),
     bnd (bnd (fld parent n) getColor) (\<lambda>c. bnd (sibling n) (upd (\<lambda>x. x\<lparr>color := c\<rparr>))),
     bnd (fld parent n) (upd (\<lambda>x. x\<lparr>color := black\<rparr>)),
     bnd (onLeft n) (\<lambda>b.
       if b then block [
         bnd (colorIs (bnd (sibling n) (fld right)) red) doAssert,
         bnd (bnd (sibling n) (fld right)) (upd (\<lambda>x. x\<lparr>color := black\<rparr>)),
         bnd (fld parent n) rotateLeft]
       else block [
         bnd (colorIs (bnd (sibling n) (fld left)) red) doAssert,
         bnd (bnd (sibling n) (fld left)) (upd (\<lambda>x. x\<lparr>color := black\<rparr>)),
         bnd (fld parent n) rotateRight])]"

definition deleteCase1_body :: "ref \<Rightarrow> (ref + unit, 'a) prog" where
  "deleteCase1_body n =
     bnd (fld parent n) (\<lambda>p.
     if p \<noteq> None then
       seq (bnd (colorIs (sibling n) red) (\<lambda>b.
            whenP b (block [
              bnd (fld parent n) (upd (\<lambda>x. x\<lparr>color := red\<rparr>)),
              bnd (sibling n) (upd (\<lambda>x. x\<lparr>color := black\<rparr>)),
              bnd (onLeft n) (\<lambda>b.
                if b then bnd (fld parent n) rotateLeft
                else bnd (fld parent n) rotateRight)])))
       (bnd (andP (colorIs (fld parent n) black)
            (andP (colorIs (sibling n) black)
            (andP (colorIs (bnd (sibling n) (fld left)) black)
                  (colorIs (bnd (sibling n) (fld right)) black)))) (\<lambda>b.
        if b then
          seq (bnd (sibling n) (upd (\<lambda>x. x\<lparr>color := red\<rparr>)))
              (bnd (fld parent n) (\<lambda>n'. ret (Inl n')))
        else
          seq (bnd (andP (colorIs (fld parent n) red)
                   (andP (colorIs (sibling n) black)
                   (andP (colorIs (bnd (sibling n) (fld left)) black)
                         (colorIs (bnd (sibling n) (fld right)) black)))) (\<lambda>b.
               if b then block [
                 bnd (sibling n) (upd (\<lambda>x. x\<lparr>color := red\<rparr>)),
                 bnd (fld parent n) (upd (\<lambda>x. x\<lparr>color := black\<rparr>))]
               else deleteCase5 n))
              (ret (Inr ()))))
     else ret (Inr ()))"

definition deleteCase1 :: "ref \<Rightarrow> (unit, 'a) prog" where
  "deleteCase1 n = whileP deleteCase1_body n"

text \<open>
  The statements \<open>x.left = v; if x.left != nil { x.left.parent = x }\<close> and their
  mirror image, which \<open>doDelete\<close> repeats for the two nodes it exchanges.
\<close>

definition setLeft :: "ref \<Rightarrow> ref \<Rightarrow> (unit, 'a) prog" where
  "setLeft x v = block [
     upd (\<lambda>n. n\<lparr>left := v\<rparr>) x,
     bnd (fld left x) (\<lambda>l. whenP (l \<noteq> None)
       (bnd (fld left x) (upd (\<lambda>n. n\<lparr>parent := x\<rparr>))))]"

definition setRight :: "ref \<Rightarrow> ref \<Rightarrow> (unit, 'a) prog" where
  "setRight x v = block [
     upd (\<lambda>n. n\<lparr>right := v\<rparr>) x,
     bnd (fld right x) (\<lambda>r. whenP (r \<noteq> None)
       (bnd (fld right x) (upd (\<lambda>n. n\<lparr>parent := x\<rparr>))))]"

text \<open>
  The block of \<open>doDelete\<close> for a node with two children: \<open>n\<close> and its predecessor
  exchange their places in the tree, and \<open>n\<close> takes the predecessor's item and colour.
\<close>

definition doDelete_swap :: "ref \<Rightarrow> (unit, 'a) prog" where
  "doDelete_swap n =
     bnd (maxPredecessor n) (\<lambda>pred.
     seq (doAssert (pred \<noteq> n))
     (bnd (isLeftChild pred) (\<lambda>isLeft.
      bnd (fld (\<lambda>x. x) pred) (\<lambda>tmp. block [
        replaceNode n pred,
        bnd (fld color n) (\<lambda>c. upd (\<lambda>x. x\<lparr>color := c\<rparr>) pred),
        if parent tmp = n then block [
          if isLeft then block [
            upd (\<lambda>x. x\<lparr>left := n\<rparr>) pred,
            bnd (fld right n) (setRight pred)]
          else block [
            bnd (fld left n) (setLeft pred),
            upd (\<lambda>x. x\<lparr>right := n\<rparr>) pred],
          upd (\<lambda>x. x\<lparr>item := item tmp\<rparr>) n,
          upd (\<lambda>x. x\<lparr>parent := pred\<rparr>) n,
          setLeft n (left tmp),
          setRight n (right tmp)]
        else block [
          bnd (fld left n) (setLeft pred),
          bnd (fld right n) (setRight pred),
          if isLeft then upd (\<lambda>x. x\<lparr>left := n\<rparr>) (parent tmp)
          else upd (\<lambda>x. x\<lparr>right := n\<rparr>) (parent tmp),
          upd (\<lambda>x. x\<lparr>item := item tmp\<rparr>) n,
          upd (\<lambda>x. x\<lparr>parent := parent tmp\<rparr>) n,
          setLeft n (left tmp),
          setRight n (right tmp)],
        upd (\<lambda>x. x\<lparr>color := color tmp\<rparr>) n]))))"

text \<open>The end of \<open>doDelete\<close>: an emptied cache entry is found again from the root.\<close>

definition doDelete_recache :: "(unit, 'a) prog" where
  "doDelete_recache =
     bnd (tfld count) (\<lambda>c.
     whenP (c > 0) (block [
       bnd (tfld minNode) (\<lambda>mn.
         whenP (mn = None) (block [
           bnd (tfld root) (\<lambda>r. tupd (\<lambda>t. t\<lparr>minNode := r\<rparr>)),
           bnd (tfld minNode) (\<lambda>mn.
             whenP (mn \<noteq> None)
               (whileP (\<lambda>_. bnd (bnd (tfld minNode) (fld left)) (\<lambda>l.
                  if l \<noteq> None then
                    seq (bnd (bnd (tfld minNode) (fld left))
                           (\<lambda>l. tupd (\<lambda>t. t\<lparr>minNode := l\<rparr>)))
                        (ret (Inl ()))
                  else ret (Inr ()))) ()))])),
       bnd (tfld maxNode) (\<lambda>mx.
         whenP (mx = None) (block [
           bnd (tfld root) (\<lambda>r. tupd (\<lambda>t. t\<lparr>maxNode := r\<rparr>)),
           bnd (tfld maxNode) (\<lambda>mx.
             whenP (mx \<noteq> None)
               (whileP (\<lambda>_. bnd (bnd (tfld maxNode) (fld right)) (\<lambda>r.
                  if r \<noteq> None then
                    seq (bnd (bnd (tfld maxNode) (fld right))
                           (\<lambda>r. tupd (\<lambda>t. t\<lparr>maxNode := r\<rparr>)))
                        (ret (Inl ()))
                  else ret (Inr ()))) ()))]))]))"

definition doDelete :: "ref \<Rightarrow> (unit, 'a) prog" where
  "doDelete n = block [
     bnd (tfld minNode) (\<lambda>mn. whenP (mn = n) (tupd (\<lambda>t. t\<lparr>minNode := None\<rparr>))),
     bnd (tfld maxNode) (\<lambda>mx. whenP (mx = n) (tupd (\<lambda>t. t\<lparr>maxNode := None\<rparr>))),
     tupd (\<lambda>t. t\<lparr>count := count t - 1\<rparr>),
     bnd (andP (bnd (fld left n) (\<lambda>l. ret (l \<noteq> None)))
               (bnd (fld right n) (\<lambda>r. ret (r \<noteq> None))))
       (\<lambda>b. whenP b (doDelete_swap n)),
     bnd (orP (bnd (fld left n) (\<lambda>l. ret (l = None)))
              (bnd (fld right n) (\<lambda>r. ret (r = None)))) doAssert,
     bnd (fld right n) (\<lambda>child0.
     bnd (if child0 = None then fld left n else ret child0) (\<lambda>child. block [
       bnd (fld color n) (\<lambda>c.
         whenP (c = black) (block [
           bnd (getColor child) (\<lambda>c. upd (\<lambda>x. x\<lparr>color := c\<rparr>) n),
           deleteCase1 n])),
       replaceNode n child,
       bnd (andP (bnd (fld parent n) (\<lambda>p. ret (p = None))) (ret (child \<noteq> None)))
         (\<lambda>b. whenP b (upd (\<lambda>x. x\<lparr>color := black\<rparr>) child)),
       doDelete_recache]))]"

section \<open>Public definitions\<close>

text \<open>
  \<open>NewTree\<close> creates the tree of the state: all fields zero but the comparator.
  Nodes already in the store stay where they are, out of the new tree's reach.
\<close>

definition NewTree :: "('a \<Rightarrow> 'a \<Rightarrow> int) \<Rightarrow> (unit, 'a) prog" where
  "NewTree cmp s = Some (Ok () (s\<lparr>tree :=
     \<lparr>root = None, minNode = None, maxNode = None, count = 0, compare = cmp\<rparr>\<rparr>))"

definition Len :: "(int, 'a) prog" where
  "Len = tfld count"

definition Get :: "'a \<Rightarrow> ('a option, 'a) prog" where
  "Get key =
     bnd (findGE key) (\<lambda>(n, exact).
     if exact then bnd (fld item n) (\<lambda>i. ret (Some i))
     else ret None)"

definition Tree_Begin :: "(Iterator, 'a) prog" where
  "Tree_Begin = bnd (tfld minNode) (\<lambda>m. ret \<lparr>node = m\<rparr>)"

definition Tree_End :: "(Iterator, 'a) prog" where
  "Tree_End = ret \<lparr>node = None\<rparr>"

definition FindGE :: "'a \<Rightarrow> (Iterator, 'a) prog" where
  "FindGE key = bnd (findGE key) (\<lambda>(n, _). ret \<lparr>node = n\<rparr>)"

definition FindLE :: "'a \<Rightarrow> (Iterator, 'a) prog" where
  "FindLE key =
     bnd (findGE key) (\<lambda>(n, exact).
     if exact then ret \<lparr>node = n\<rparr>
     else if n \<noteq> None then bnd (node_prev n) (\<lambda>p. ret \<lparr>node = p\<rparr>)
     else
       bnd (tfld root) (\<lambda>n.
       if n = None then ret \<lparr>node = None\<rparr>
       else
         bnd (whileP (\<lambda>n. bnd (fld right n) (\<lambda>r.
                if r \<noteq> None then bnd (fld right n) (\<lambda>n'. ret (Inl n'))
                else ret (Inr n))) n)
           (\<lambda>n. ret \<lparr>node = n\<rparr>)))"

text \<open>
  \<open>new(node)\<close> followed by \<open>n.item = item\<close>: a fresh address whose node has the
  item and is zero elsewhere (nil links, colour \<open>red = 0\<close>).
\<close>

definition new_node :: "'a \<Rightarrow> (ref, 'a) prog" where
  "new_node i s = Some (Ok (Some (nalloc s))
     (s\<lparr>nodes := (nodes s)(nalloc s :=
           \<lparr>item = i, parent = None, left = None, right = None, color = red\<rparr>),
        nalloc := Suc (nalloc s)\<rparr>))"

definition Insert_body :: "ref \<Rightarrow> (ref + unit, 'a) prog" where
  "Insert_body n =
     bnd (fld parent n) (\<lambda>p.
     if p = None then seq (upd (\<lambda>x. x\<lparr>color := black\<rparr>) n) (ret (Inr ()))
     else
       bnd (bnd (fld parent n) (fld color)) (\<lambda>c.
       if c = black then ret (Inr ())
       else
         bnd (bnd (fld parent n) (fld parent)) (\<lambda>grandparent.
         bnd (bnd (bnd (fld parent n) isLeftChild) (\<lambda>b.
                if b then fld right grandparent else fld left grandparent)) (\<lambda>uncle.
         bnd (andP (ret (uncle \<noteq> None)) (bnd (fld color uncle) (\<lambda>c. ret (c = red)))) (\<lambda>b.
         if b then
           seq (block [
             bnd (fld parent n) (upd (\<lambda>x. x\<lparr>color := black\<rparr>)),
             upd (\<lambda>x. x\<lparr>color := black\<rparr>) uncle,
             upd (\<lambda>x. x\<lparr>color := red\<rparr>) grandparent])
           (ret (Inl grandparent))
         else
           bnd (andP (isRightChild n) (bnd (fld parent n) isLeftChild)) (\<lambda>b.
           if b then
             seq (bnd (fld parent n) rotateLeft)
                 (bnd (fld left n) (\<lambda>n'. ret (Inl n')))
           else
             bnd (andP (isLeftChild n) (bnd (fld parent n) isRightChild)) (\<lambda>b.
             if b then
               seq (bnd (fld parent n) rotateRight)
                   (bnd (fld right n) (\<lambda>n'. ret (Inl n')))
             else
               seq (block [
                 bnd (fld parent n) (upd (\<lambda>x. x\<lparr>color := black\<rparr>)),
                 upd (\<lambda>x. x\<lparr>color := red\<rparr>) grandparent,
                 bnd (isLeftChild n) (\<lambda>b.
                   if b then rotateRight grandparent else rotateLeft grandparent)])
               (ret (Inr ())))))))))"

definition Insert :: "'a \<Rightarrow> (bool, 'a) prog" where
  "Insert i =
     bnd (new_node i) (\<lambda>n.
     seq (upd (\<lambda>x. x\<lparr>color := red\<rparr>) n)
     (bnd (doInsert n) (\<lambda>inserted.
      if \<not> inserted then ret False
      else
        seq (block [
          upd (\<lambda>x. x\<lparr>color := red\<rparr>) n,
          whileP Insert_body n])
        (ret True))))"

definition Iter_End :: "Iterator \<Rightarrow> bool" where
  "Iter_End iter = (node iter = None)"

definition Iter_Begin :: "Iterator \<Rightarrow> (bool, 'a) prog" where
  "Iter_Begin iter = bnd (tfld minNode) (\<lambda>m. ret (node iter = m))"

definition Iter_Item :: "Iterator \<Rightarrow> ('a, 'a) prog" where
  "Iter_Item iter = fld item (node iter)"

definition Iter_Next :: "Iterator \<Rightarrow> (Iterator, 'a) prog" where
  "Iter_Next iter =
     seq (doAssert (\<not> Iter_End iter))
         (bnd (node_next (node iter)) (\<lambda>n. ret \<lparr>node = n\<rparr>))"

definition Iter_Prev :: "Iterator \<Rightarrow> (Iterator, 'a) prog" where
  "Iter_Prev iter =
     bnd (Iter_Begin iter) (\<lambda>b.
     seq (doAssert (\<not> b))
     (if Iter_End iter then
        bnd Len (\<lambda>c.
        seq (doAssert (c > 0))
            (bnd (tfld maxNode) (\<lambda>m. ret \<lparr>node = m\<rparr>)))
      else bnd (node_prev (node iter)) (\<lambda>n. ret \<lparr>node = n\<rparr>)))"

definition DeleteWithIterator :: "Iterator \<Rightarrow> (unit, 'a) prog" where
  "DeleteWithIterator iter =
     seq (doAssert (\<not> Iter_End iter)) (doDelete (node iter))"

definition DeleteWithKey :: "'a \<Rightarrow> (bool, 'a) prog" where
  "DeleteWithKey key =
     bnd (FindGE key) (\<lambda>iter.
     if node iter \<noteq> None then seq (DeleteWithIterator iter) (ret True)
     else ret False)"

section \<open>Two concrete stores\<close>

text \<open>
  \<open>store0\<close> is a store in which nothing is allocated, holding an empty tree of integers
  ordered by subtraction, as the test suite's \<open>testNewIntSet\<close> builds it;
  \<open>store10\<close> is the store after \<open>Insert(10)\<close>.
\<close>

definition store0 :: "int state" where
  "store0 = \<lparr>tree = \<lparr>root = None, minNode = None, maxNode = None, count = 0,
                       compare = (\<lambda>a b. a - b)\<rparr>,
             nodes = (\<lambda>_. \<lparr>item = 0, parent = None, left = None, right = None, color = red\<rparr>),
             nalloc = 0\<rparr>"

definition store10 :: "int state" where
  "store10 = \<lparr>tree = \<lparr>root = Some 0, minNode = Some 0, maxNode = Some 0, count = 1,
                        compare = (\<lambda>a b. a - b)\<rparr>,
              nodes = (\<lambda>_. \<lparr>item = 0, parent = None, left = None, right = None, color = red\<rparr>)
                 (0 := \<lparr>item = 10, parent = None, left = None, right = None, color = black\<rparr>),
              nalloc = 1\<rparr>"

section \<open>Evaluating programs\<close>

lemmas prog_defs = ret_def panic_def bnd_def seq_def whenP_def andP_def orP_def fld_def upd_def
  tfld_def tupd_def doAssert_def

lemma NewTree_store0: "NewTree (\<lambda>a b. a - b) store0 = Some (Ok () store0)"
  by (simp add: NewTree_def store0_def)

lemma Insert_store0: "Insert 10 store0 = Some (Ok True store10)"
  by (simp add: store0_def store10_def Insert_def prog_defs new_node_def doInsert_def
      whileP.simps Insert_body_def)

section \<open>Precondition violations\<close>

text \<open>
  Claim C9. \<open>Item()\<close>, \<open>Next()\<close> and \<open>DeleteWithIterator\<close> on an End iterator, and
  \<open>Prev()\<close> on an iterator for which \<open>Begin()\<close> is true, panic in every state, and the
  state at the panic is the state of the call: nothing was changed and no value is
  returned.
\<close>

theorem precondition_violations_panic:
  "(Iter_End iter \<longrightarrow>
      Iter_Item iter s = Some (Panic s) \<and> Iter_Next iter s = Some (Panic s)
      \<and> DeleteWithIterator iter s = Some (Panic s))
   \<and> (Iter_Begin iter' s = Some (Ok True s) \<longrightarrow> Iter_Prev iter' s = Some (Panic s))"
  by (simp add: Iter_End_def Iter_Item_def Iter_Next_def DeleteWithIterator_def Iter_Prev_def
      Iter_Begin_def prog_defs)

theorem precondition_violations_panic_witness:
  "Iter_End \<lparr>node = None\<rparr> \<and> Iter_Begin \<lparr>node = Some 0\<rparr> store10 = Some (Ok True store10)
   \<and> Iter_Item \<lparr>node = None\<rparr> store10 = Some (Panic store10)
   \<and> Iter_Next \<lparr>node = None\<rparr> store10 = Some (Panic store10)
   \<and> DeleteWithIterator \<lparr>node = None\<rparr> store10 = Some (Panic store10)
   \<and> Iter_Prev \<lparr>node = Some 0\<rparr> store10 = Some (Panic store10)"
proof -
  have e: "Iter_End \<lparr>node = None\<rparr>"
    by (simp add: Iter_End_def)
  have b: "Iter_Begin \<lparr>node = Some 0\<rparr> store10 = Some (Ok True store10)"
    by (simp add: Iter_Begin_def store10_def prog_defs)
  show ?thesis
    using precondition_violations_panic [of "\<lparr>node = None\<rparr>" store10 "\<lparr>node = Some 0\<rparr>"] e b
    by simp
qed

section \<open>Deleting by key\<close>

text \<open>
  Claim C1. \<open>DeleteWithKey\<close> tests the iterator of \<open>FindGE\<close> for nil, not for an exact
  match. In the tree holding 10 only, \<open>DeleteWithKey(9)\<close> finds 10, the smallest item
  above 9, deletes it and returns true: afterwards \<open>Get(10)\<close> finds nothing and
  \<open>Len()\<close> is 0.
\<close>

theorem DeleteWithKey_absent_key_deletes:
  "\<exists>s'. bnd (NewTree (\<lambda>a b. a - b)) (\<lambda>_.
        bnd (Insert (10::int)) (\<lambda>_.
        bnd (DeleteWithKey 9) (\<lambda>deleted.
        bnd (Get 10) (\<lambda>g.
        bnd Len (\<lambda>len. ret (deleted, g, len)))))) s = Some (Ok (True, None, 0) s')"
  by (simp add: NewTree_def Insert_def DeleteWithKey_def Get_def Len_def prog_defs new_node_def
      doInsert_def whileP.simps Insert_body_def FindGE_def findGE_def findGE_body_def
      DeleteWithIterator_def Iter_End_def doDelete_def getColor_def deleteCase1_def
      deleteCase1_body_def replaceNode_def doDelete_recache_def)

section \<open>The empty tree\<close>

text \<open>
  Claim C10. In the tree \<open>NewTree\<close> creates, \<open>Begin()\<close> and \<open>End()\<close> return the same
  iterator, whose node is nil; \<open>End()\<close> and \<open>Begin()\<close> are both true of it, and
  \<open>Prev()\<close> on it panics.
\<close>

theorem empty_tree_iterators:
  "NewTree cmp s = Some (Ok () s0) \<Longrightarrow>
     Tree_Begin s0 = Some (Ok \<lparr>node = None\<rparr> s0) \<and> Tree_End s0 = Some (Ok \<lparr>node = None\<rparr> s0)
     \<and> Iter_End \<lparr>node = None\<rparr> \<and> Iter_Begin \<lparr>node = None\<rparr> s0 = Some (Ok True s0)
     \<and> Iter_Prev \<lparr>node = None\<rparr> s0 = Some (Panic s0)"
  by (auto simp add: NewTree_def Tree_Begin_def Tree_End_def Iter_End_def Iter_Begin_def
      Iter_Prev_def prog_defs)

theorem empty_tree_iterators_witness:
  "NewTree (\<lambda>a b. a - b) store0 = Some (Ok () store0)
   \<and> Tree_Begin store0 = Some (Ok \<lparr>node = None\<rparr> store0)
   \<and> Tree_End store0 = Some (Ok \<lparr>node = None\<rparr> store0)
   \<and> Iter_End \<lparr>node = None\<rparr> \<and> Iter_Begin \<lparr>node = None\<rparr> store0 = Some (Ok True store0)
   \<and> Iter_Prev \<lparr>node = None\<rparr> store0 = Some (Panic store0)"
  using empty_tree_iterators [OF NewTree_store0] NewTree_store0 by simp

end
